theory Spec2Isabelle
  imports Main "HOL-Library.Sublist" "HOL-Library.Multiset"
begin

section \<open>Folder import: the file list, its ignore filter and its extension filter\<close>

text \<open>
  The development follows \<^verbatim>\<open>src/components/FolderImportModal.tsx\<close>. The component receives
  the browser's \<^verbatim>\<open>File\<close> objects of a picked folder and derives, in this order, the
  ignore filter, the allowed files, the tally of their extensions, the default selection
  of extensions and the final list to import. Each derived value is a pure function of
  the values before it, so each \<^verbatim>\<open>useMemo\<close> is a function here and the React state it
  reads is a parameter.
\<close>

subsection \<open>Strings and arrays of the platform\<close>

text \<open>
  \<^verbatim>\<open>s.split(sep)\<close> for a one-character separator: the pieces between the separators,
  empty pieces kept, and never an empty array (\<^verbatim>\<open>"".split("/")\<close> is \<^verbatim>\<open>[""]\<close>).
\<close>

fun split_str :: "char \<Rightarrow> string \<Rightarrow> string list" where
  "split_str sep [] = [[]]"
| "split_str sep (c # cs) =
     (if c = sep then [] # split_str sep cs
      else (case split_str sep cs of
              [] \<Rightarrow> [[c]]
            | w # ws \<Rightarrow> (c # w) # ws))"

text \<open>\<^verbatim>\<open>parts.join(sep)\<close>: the pieces with the separator between them; the empty array gives
  the empty string.\<close>

fun join_str :: "char \<Rightarrow> string list \<Rightarrow> string" where
  "join_str sep [] = []"
| "join_str sep [w] = w"
| "join_str sep (w # v # ws) = w @ sep # join_str sep (v # ws)"

text \<open>\<^verbatim>\<open>parts.slice(1)\<close> drops the first element; \<^verbatim>\<open>parts.pop()\<close> is the last element, or
  \<^verbatim>\<open>undefined\<close> on an empty array.\<close>

definition slice1 :: "'a list \<Rightarrow> 'a list" where
  "slice1 xs = drop 1 xs"

definition pop :: "'a list \<Rightarrow> 'a option" where
  "pop xs = (case xs of [] \<Rightarrow> None | _ # _ \<Rightarrow> Some (last xs))"

text \<open>\<^verbatim>\<open>s.includes(".")\<close> for a one-character needle.\<close>

definition includes_chr :: "string \<Rightarrow> char \<Rightarrow> bool" where
  "includes_chr s c = (c \<in> set s)"

text \<open>A string is truthy exactly when it is not empty.\<close>

definition truthy :: "string \<Rightarrow> bool" where
  "truthy s = (s \<noteq> [])"

subsection \<open>Files\<close>

text \<open>Of a \<^verbatim>\<open>File\<close> the component reads the name and the path relative to the parent of
  the picked folder, so that the path of a picked file starts with the folder's name.\<close>

record File =
  name :: string
  webkitRelativePath :: string

subsection \<open>Allowed files\<close>

text \<open>
  Lines 50 to 52: the path handed to the ignore filter is the platform's relative path
  without its first segment.
\<close>

definition relativePath :: "File \<Rightarrow> string" where
  "relativePath file =
     (let pathParts = split_str CHR ''/'' (webkitRelativePath file)
      in join_str CHR ''/'' (slice1 pathParts))"

text \<open>
  Lines 46 to 55. The filter object of the \<^verbatim>\<open>ignore\<close> package enters through its one
  method used here, \<^verbatim>\<open>ignores\<close>, a predicate on paths. With the toggle off the files are
  returned as they are; with it on a file is kept when its relative path is truthy and
  the filter does not ignore it.
\<close>

definition allowedFiles :: "bool \<Rightarrow> (string \<Rightarrow> bool) \<Rightarrow> File list \<Rightarrow> File list" where
  "allowedFiles respectGitIgnore ignores files =
     (if \<not> respectGitIgnore then files
      else filter (\<lambda>file. truthy (relativePath file) \<and> \<not> ignores (relativePath file)) files)"

text \<open>Line 105: the number shown as ignored is the difference of the two lengths.\<close>

definition totalIgnored :: "File list \<Rightarrow> File list \<Rightarrow> int" where
  "totalIgnored files allowed = int (length files) - int (length allowed)"

subsection \<open>Extensions\<close>

text \<open>
  Lines 61 and 88, the same expression twice: a name with a dot has the token made of a
  dot and the last piece of the name split at dots; a name without one has \<^verbatim>\<open>no-ext\<close>.
  Concatenating \<^verbatim>\<open>undefined\<close> would give the text \<^verbatim>\<open>undefined\<close>.
\<close>

definition ext_of :: "string \<Rightarrow> string" where
  "ext_of n =
     (if includes_chr n CHR ''.''
      then CHR ''.'' # (case pop (split_str CHR ''.'' n) of None \<Rightarrow> ''undefined'' | Some e \<Rightarrow> e)
      else ''no-ext'')"

text \<open>
  Lines 58 to 65. \<^verbatim>\<open>counts\<close> is an object used as a dictionary; its keys are listed in
  the order of their first insertion (no token is an array index: each starts with a
  dot or is \<^verbatim>\<open>no-ext\<close>), so it is an association list here. \<^verbatim>\<open>(counts[ext] || 0) + 1\<close>
  starts a missing key at one and adds one to a present count.
\<close>

fun incr :: "(string \<times> nat) list \<Rightarrow> string \<Rightarrow> (string \<times> nat) list" where
  "incr [] ext = [(ext, 0 + 1)]"
| "incr ((k, v) # counts) ext =
     (if k = ext then (k, v + 1) # counts else (k, v) # incr counts ext)"

definition availableExtensions :: "File list \<Rightarrow> (string \<times> nat) list" where
  "availableExtensions allowed = foldl (\<lambda>counts f. incr counts (ext_of (name f))) [] allowed"

text \<open>Lines 71 to 82: the keys of the tally that are common code extensions.\<close>

definition commonCodeExts :: "string list" where
  "commonCodeExts =
     [''.rs'', ''.js'', ''.ts'', ''.jsx'', ''.tsx'', ''.py'', ''.go'', ''.java'', ''.c'',
      ''.cpp'', ''.h'', ''.css'', ''.html'', ''.vue'', ''.svelte'', ''.json'', ''.toml'', ''.md'']"

definition newSelection :: "(string \<times> nat) list \<Rightarrow> string set" where
  "newSelection available =
     set (filter (\<lambda>ext. ext \<in> set commonCodeExts \<or> ext = ''.toml'' \<or> ext = ''.json'')
            (map fst available))"

text \<open>Lines 86 to 91: the allowed files whose token is selected.\<close>

definition finalFilesToImport :: "File list \<Rightarrow> string set \<Rightarrow> File list" where
  "finalFilesToImport allowed selectedExtensions =
     filter (\<lambda>file. ext_of (name file) \<in> selectedExtensions) allowed"

text \<open>
  Lines 194 to 196: the entries of the tally sorted with the comparator
  \<^verbatim>\<open>(a, b) => b[1] - a[1]\<close>. The platform's sort is stable; it is an insertion sort here,
  which places an entry before the first later entry that the comparator does not put
  ahead of it.
\<close>

definition chipCompare :: "string \<times> nat \<Rightarrow> string \<times> nat \<Rightarrow> int" where
  "chipCompare a b = int (snd b) - int (snd a)"

fun insert_sorted :: "('a \<Rightarrow> 'a \<Rightarrow> int) \<Rightarrow> 'a \<Rightarrow> 'a list \<Rightarrow> 'a list" where
  "insert_sorted cmp x [] = [x]"
| "insert_sorted cmp x (y # ys) =
     (if cmp x y \<le> 0 then x # y # ys else y # insert_sorted cmp x ys)"

definition stable_sort :: "('a \<Rightarrow> 'a \<Rightarrow> int) \<Rightarrow> 'a list \<Rightarrow> 'a list" where
  "stable_sort cmp xs = foldr (insert_sorted cmp) xs []"

definition extensionChips :: "(string \<times> nat) list \<Rightarrow> (string \<times> nat) list" where
  "extensionChips available = stable_sort chipCompare available"

subsection \<open>The ignore filter\<close>

text \<open>
  The component builds its filter with the \<^verbatim>\<open>ignore\<close> package (line 5), whose source is
  not part of the repository. The definitions of this subsection up to \<open>build\<close> stand
  for that package and follow the specification's description of the operations
  \<^verbatim>\<open>build\<close> and \<^verbatim>\<open>isIgnored\<close>; \<open>defaultPatterns\<close> and \<open>ignoreFilter\<close> after them are the
  component's own lines 33 to 42.
\<close>

text \<open>Modelled from the spec: the one error of the absent \<^verbatim>\<open>build\<close>, as the specification
  names it.\<close>

datatype error = PatternParseError

text \<open>Modelled from the spec: the pattern record that the parser of the absent \<^verbatim>\<open>ignore\<close>
  package makes of one line, with the fields the specification lists.\<close>

record pattern =
  glob :: string
  anchoredToRoot :: bool
  directoryOnly :: bool
  negated :: bool
  sourceOrder :: nat

text \<open>Modelled from the spec: the glob tokens the absent matcher must support, a run of
  characters other than the separator, a run of any characters, one character, a
  character class, and every other character standing for itself.\<close>

datatype glob_token =
    Lit char
  | AnyChar
  | Star
  | DoubleStar
  | CharClass bool "(char \<times> char) list"

text \<open>Modelled from the spec: the body of a character class of the absent parser, read
  as single characters and ranges \<^verbatim>\<open>a-z\<close>, negated by a leading \<^verbatim>\<open>!\<close>.\<close>

fun class_items :: "string \<Rightarrow> (char \<times> char) list" where
  "class_items (a # m # b # rest) =
     (if m = CHR ''-'' then (a, b) # class_items rest
      else (a, a) # class_items (m # b # rest))"
| "class_items (a # rest) = (a, a) # class_items rest"
| "class_items [] = []"

text \<open>Modelled from the spec: the class token the absent parser makes of a class body.\<close>

definition mk_class :: "string \<Rightarrow> glob_token" where
  "mk_class body =
     (case body of
        [] \<Rightarrow> CharClass False []
      | c # cs \<Rightarrow> if c = CHR ''!'' then CharClass True (class_items cs)
                 else CharClass False (class_items body))"

text \<open>Modelled from the spec: a token put in front of the tokens of the rest of the glob,
  the failure of the rest passed on.\<close>

definition cons_token :: "glob_token \<Rightarrow> error + glob_token list \<Rightarrow> error + glob_token list" where
  "cons_token t r = (case r of Inl e \<Rightarrow> Inl e | Inr ts \<Rightarrow> Inr (t # ts))"

text \<open>Modelled from the spec: the glob compiler of the absent package. The first argument
  is the body of the character class being read, if one is open; a class still open
  at the end of the glob is the unterminated character class that makes \<^verbatim>\<open>build\<close> fail.\<close>

fun tokenize :: "string option \<Rightarrow> string \<Rightarrow> error + glob_token list" where
  "tokenize None [] = Inr []"
| "tokenize (Some body) [] = Inl PatternParseError"
| "tokenize (Some body) (c # cs) =
     (if c = CHR '']'' then cons_token (mk_class body) (tokenize None cs)
      else tokenize (Some (body @ [c])) cs)"
| "tokenize None (c # cs) =
     (if c = CHR ''['' then tokenize (Some []) cs
      else if c = CHR ''?'' then cons_token AnyChar (tokenize None cs)
      else if c = CHR ''*'' then
        (case cs of
           [] \<Rightarrow> Inr [Star]
         | d # ds \<Rightarrow> if d = CHR ''*'' then cons_token DoubleStar (tokenize None ds)
                    else cons_token Star (tokenize None cs))
      else cons_token (Lit c) (tokenize None cs))"

text \<open>Modelled from the spec: membership of a character in a class of the absent matcher,
  by character code.\<close>

definition in_class :: "(char \<times> char) list \<Rightarrow> char \<Rightarrow> bool" where
  "in_class items c =
     list_ex (\<lambda>(lo, hi). (of_char lo :: nat) \<le> of_char c \<and> (of_char c :: nat) \<le> of_char hi) items"

text \<open>Modelled from the spec: the glob matcher of the absent package, on a whole text.
  \<^verbatim>\<open>*\<close> takes any run of characters except \<^verbatim>\<open>/\<close>, \<^verbatim>\<open>**\<close> any run of characters including
  \<^verbatim>\<open>/\<close>, \<^verbatim>\<open>?\<close> a single character, a class a single character that is (or, negated, is
  not) one of its items.\<close>

fun glob_match :: "glob_token list \<Rightarrow> string \<Rightarrow> bool" where
  "glob_match [] s = (s = [])"
| "glob_match (Lit c # ts) s =
     (case s of [] \<Rightarrow> False | d # ds \<Rightarrow> c = d \<and> glob_match ts ds)"
| "glob_match (AnyChar # ts) s =
     (case s of [] \<Rightarrow> False | d # ds \<Rightarrow> glob_match ts ds)"
| "glob_match (CharClass neg items # ts) s =
     (case s of [] \<Rightarrow> False | d # ds \<Rightarrow> in_class items d \<noteq> neg \<and> glob_match ts ds)"
| "glob_match (Star # ts) s =
     (glob_match ts s \<or>
      (case s of [] \<Rightarrow> False | d # ds \<Rightarrow> d \<noteq> CHR ''/'' \<and> glob_match (Star # ts) ds))"
| "glob_match (DoubleStar # ts) s =
     (glob_match ts s \<or>
      (case s of [] \<Rightarrow> False | d # ds \<Rightarrow> glob_match (DoubleStar # ts) ds))"

text \<open>Modelled from the spec: the parts of a path the absent matcher looks at, the final
  segment and the directories above it from the root down. \<^verbatim>\<open>a/b/c.txt\<close> has the
  basename \<^verbatim>\<open>c.txt\<close> and the ancestors \<^verbatim>\<open>a\<close> and \<^verbatim>\<open>a/b\<close>.\<close>

definition basename :: "string \<Rightarrow> string" where
  "basename path = last (split_str CHR ''/'' path)"

definition ancestors :: "string \<Rightarrow> string list" where
  "ancestors path =
     (let segs = split_str CHR ''/'' path
      in map (\<lambda>k. join_str CHR ''/'' (take k segs)) [1..<length segs])"

text \<open>Modelled from the spec: a rule of the absent matcher is a pattern with its compiled
  glob, and the opaque matcher is the list of its rules in source order.\<close>

type_synonym rule = "pattern \<times> glob_token list"
type_synonym CompiledMatcher = "rule list"

text \<open>Modelled from the spec: where the absent matcher applies a glob. A pattern with no
  \<^verbatim>\<open>/\<close> matches the basename at any depth; a pattern containing \<^verbatim>\<open>/\<close>, or anchored to the
  root by a leading one, matches the full relative path.\<close>

definition glob_applies :: "rule \<Rightarrow> string \<Rightarrow> bool" where
  "glob_applies r target =
     (if anchoredToRoot (fst r) \<or> CHR ''/'' \<in> set (glob (fst r))
      then glob_match (snd r) target
      else glob_match (snd r) (basename target))"

text \<open>Modelled from the spec: when a rule of the absent matcher matches a candidate, which
  is the path of a file. Its glob matches the path or one of the ancestor directories;
  a directory-only pattern can match the ancestor directories only. That a pattern
  without a trailing \<^verbatim>\<open>/\<close> reaches the files below a directory it matches is the
  \<^verbatim>\<open>.gitignore\<close> behaviour the specification refers to, and what its scenario of the
  built-in defaults requires of the default \<^verbatim>\<open>node_modules\<close>.\<close>

definition rule_matches :: "rule \<Rightarrow> string \<Rightarrow> bool" where
  "rule_matches r path =
     list_ex (glob_applies r)
       ((if directoryOnly (fst r) then [] else [path]) @ ancestors path)"

text \<open>Modelled from the spec: \<^verbatim>\<open>isIgnored\<close> of the absent matcher. The rules are evaluated in
  source order, each matching rule overwriting the decision: ignored by a plain rule,
  included again by a negated one. The decision starts as not ignored.\<close>

definition isIgnored :: "CompiledMatcher \<Rightarrow> string \<Rightarrow> bool" where
  "isIgnored m path =
     foldl (\<lambda>ignored r. if rule_matches r path then \<not> negated (fst r) else ignored) False m"

text \<open>Modelled from the spec: the optional marks of a line of the absent parser, one
  character at the front or at the end, reported and removed.\<close>

definition strip_leading :: "char \<Rightarrow> string \<Rightarrow> bool \<times> string" where
  "strip_leading c s =
     (case s of [] \<Rightarrow> (False, []) | d # ds \<Rightarrow> if d = c then (True, ds) else (False, s))"

definition strip_trailing :: "char \<Rightarrow> string \<Rightarrow> bool \<times> string" where
  "strip_trailing c s =
     (case rev s of [] \<Rightarrow> (False, []) | d # ds \<Rightarrow> if d = c then (True, rev ds) else (False, s))"

text \<open>Modelled from the spec: the line parser of the absent package. Blank lines and
  comment lines give no rule; a leading \<^verbatim>\<open>!\<close> negates, a leading \<^verbatim>\<open>/\<close> anchors to the
  root, a trailing \<^verbatim>\<open>/\<close> restricts to directories, and what is left is the glob. A line
  with nothing left is malformed and skipped.\<close>

definition parse_line :: "nat \<Rightarrow> string \<Rightarrow> error + rule option" where
  "parse_line n line =
     (case line of
        [] \<Rightarrow> Inr None
      | c # _ \<Rightarrow>
          if c = CHR ''#'' then Inr None
          else
            (let (neg, l1) = strip_leading CHR ''!'' line;
                 (anchored, l2) = strip_leading CHR ''/'' l1;
                 (dir, g) = strip_trailing CHR ''/'' l2
             in if g = [] then Inr None
                else (case tokenize None g of
                        Inl e \<Rightarrow> Inl e
                      | Inr ts \<Rightarrow>
                          Inr (Some (\<lparr>glob = g, anchoredToRoot = anchored, directoryOnly = dir,
                                      negated = neg, sourceOrder = n\<rparr>, ts)))))"

text \<open>Modelled from the spec: \<^verbatim>\<open>build\<close> of the absent package. The text blocks are read in
  order, line by line; the rules keep the order of their lines, whose position is
  their source order. The first unterminated character class fails the build.\<close>

fun build_lines :: "nat \<Rightarrow> string list \<Rightarrow> error + CompiledMatcher" where
  "build_lines n [] = Inr []"
| "build_lines n (line # rest) =
     (case parse_line n line of
        Inl e \<Rightarrow> Inl e
      | Inr parsed \<Rightarrow>
          (case build_lines (Suc n) rest of
             Inl e \<Rightarrow> Inl e
           | Inr rules \<Rightarrow> Inr ((case parsed of None \<Rightarrow> [] | Some r \<Rightarrow> [r]) @ rules)))"

definition build :: "string list \<Rightarrow> error + CompiledMatcher" where
  "build patternSources =
     build_lines 0 (concat (map (split_str (CHR 0x0A)) patternSources))"

text \<open>
  Lines 33 to 42: the filter of the component holds the eleven built-in patterns and,
  after them, the content of the folder's \<^verbatim>\<open>.gitignore\<close> when one was read and is
  truthy.
\<close>

definition defaultPatterns :: "string list" where
  "defaultPatterns =
     [''.git'', ''node_modules'', ''target'', ''dist'', ''build'', ''coverage'',
      ''.DS_Store'', ''*.log'', ''*.lock'', ''package-lock.json'', ''yarn.lock'']"

definition ignoreFilter :: "string option \<Rightarrow> error + CompiledMatcher" where
  "ignoreFilter gitIgnoreContent =
     build (defaultPatterns @
            (case gitIgnoreContent of
               None \<Rightarrow> []
             | Some content \<Rightarrow> if truthy content then [content] else []))"

subsection \<open>The specification's reading of the extension token and of the display order\<close>

text \<open>
  The specification words two of the component's results differently from the code. Its
  wordings are defined here on their own, to be compared with \<open>ext_of\<close> and
  \<open>extensionChips\<close>.
\<close>

text \<open>The substring after the last occurrence of a character.\<close>

definition after_last :: "char \<Rightarrow> string \<Rightarrow> string" where
  "after_last sep s = rev (takeWhile (\<lambda>c. c \<noteq> sep) (rev s))"

text \<open>Lower-casing of the letters \<^verbatim>\<open>A\<close> to \<^verbatim>\<open>Z\<close>, character codes 65 to 90.\<close>

definition to_lower :: "char \<Rightarrow> char" where
  "to_lower c =
     (let n = (of_char c :: nat) in if 65 \<le> n \<and> n \<le> 90 then char_of (n + 32) else c)"

text \<open>The specification's token: the substring after the last dot of the name,
  lower-cased, with a dot in front; \<^verbatim>\<open>no-ext\<close> for a name without a dot.\<close>

definition extension_token_spec :: "string \<Rightarrow> string" where
  "extension_token_spec n =
     (if CHR ''.'' \<in> set n then CHR ''.'' # map to_lower (after_last CHR ''.'' n)
      else ''no-ext'')"

text \<open>Ascending order of tokens, character code by character code.\<close>

fun token_le :: "string \<Rightarrow> string \<Rightarrow> bool" where
  "token_le [] t = True"
| "token_le (c # cs) [] = False"
| "token_le (c # cs) (d # ds) =
     ((of_char c :: nat) < of_char d \<or> (c = d \<and> token_le cs ds))"

text \<open>The specification's display order: an entry stands before another when its count
  is greater, or the counts are equal and its token is not the greater one.\<close>

definition display_order_spec :: "string \<times> nat \<Rightarrow> string \<times> nat \<Rightarrow> bool" where
  "display_order_spec a b =
     (snd b < snd a \<or> (snd a = snd b \<and> token_le (fst a) (fst b)))"

section \<open>Properties\<close>

subsection \<open>Splitting and joining\<close>

lemma split_str_not_Nil: "split_str sep s \<noteq> []"
  by (induction s) (auto split: list.splits)

lemma split_str_no_sep: "sep \<notin> set s \<Longrightarrow> split_str sep s = [s]"
  by (induction s) auto

lemma split_str_sep: "sep \<in> set s \<Longrightarrow> tl (split_str sep s) \<noteq> []"
  using split_str_not_Nil [of sep]
  by (induction s) (auto split: list.splits)

lemma last_split_str: "last (split_str sep s) = after_last sep s"
proof (induction s)
  case Nil
  then show ?case by (simp add: after_last_def)
next
  case (Cons c s)
  show ?case
  proof (cases "c = sep")
    case True
    then show ?thesis using Cons split_str_not_Nil [of sep s]
      by (simp add: after_last_def takeWhile_append)
  next
    case False
    note c = this
    show ?thesis
    proof (cases "sep \<in> set s")
      case True
      obtain w ws where ws: "split_str sep s = w # ws"
        using split_str_not_Nil [of sep s] by (cases "split_str sep s") auto
      with split_str_sep [OF True] have "ws \<noteq> []" by simp
      with ws c Cons True show ?thesis
        by (auto simp: after_last_def takeWhile_append)
    next
      case False
      with c show ?thesis
        by (simp add: after_last_def split_str_no_sep takeWhile_append)
    qed
  qed
qed

lemma relativePath_no_slash:
  "CHR ''/'' \<notin> set (webkitRelativePath f) \<Longrightarrow> relativePath f = []"
  by (simp add: relativePath_def slice1_def split_str_no_sep)

lemma length_filter_mono:
  "(\<And>x. x \<in> set xs \<Longrightarrow> P x \<Longrightarrow> Q x) \<Longrightarrow> length (filter P xs) \<le> length (filter Q xs)"
  by (induction xs) auto

lemma totalIgnored_filter:
  "totalIgnored files (filter P files) = int (length (filter (\<lambda>f. \<not> P f) files))"
  using sum_length_filter_compl [of P files] by (simp add: totalIgnored_def)

subsection \<open>Allowed files\<close>

text \<open>
  C5, as the code has it. With the toggle on, the allowed files are exactly the
  candidates whose relative path (the platform's path without its first segment) is not
  empty and is not ignored by the filter, in their original order; they are a
  subsequence of the candidates. The number of allowed files and the number shown as
  ignored add up to the number of candidates, and the number shown as ignored counts
  the candidates whose relative path is empty or ignored. This holds for every
  candidate list and every filter.
\<close>

theorem allowedFiles_subsequence:
  "allowedFiles True ignores files =
     filter (\<lambda>f. relativePath f \<noteq> [] \<and> \<not> ignores (relativePath f)) files
   \<and> subseq (allowedFiles True ignores files) files
   \<and> int (length (allowedFiles True ignores files))
       + totalIgnored files (allowedFiles True ignores files) = int (length files)
   \<and> totalIgnored files (allowedFiles True ignores files) =
       int (length (filter (\<lambda>f. relativePath f = [] \<or> ignores (relativePath f)) files))"
proof -
  have a: "allowedFiles True ignores files =
     filter (\<lambda>f. relativePath f \<noteq> [] \<and> \<not> ignores (relativePath f)) files"
    by (simp add: allowedFiles_def truthy_def)
  have t: "totalIgnored files (allowedFiles True ignores files) =
       int (length (filter (\<lambda>f. relativePath f = [] \<or> ignores (relativePath f)) files))"
    unfolding a totalIgnored_filter by simp
  show ?thesis using a t by (simp add: totalIgnored_def)
qed

text \<open>
  C5, as the specification has it, asks for all candidates that the filter does not
  ignore. A candidate whose platform path has no separator has the empty relative
  path; the filter that ignores nothing does not ignore it, and the code drops it.
\<close>

theorem allowedFiles_not_all_unignored:
  "allowedFiles True (\<lambda>p. False) [\<lparr>name = ''README'', webkitRelativePath = ''README''\<rparr>]
     \<noteq> filter (\<lambda>f. \<not> (\<lambda>p. False) (relativePath f))
          [\<lparr>name = ''README'', webkitRelativePath = ''README''\<rparr>]"
  by (simp add: allowedFiles_def truthy_def relativePath_def slice1_def)

text \<open>
  C10. With the toggle on, a candidate whose platform path contains no \<^verbatim>\<open>/\<close> has the
  empty relative path, is not among the allowed files whatever the filter, and each
  of its occurrences in the candidate list is counted in the number shown as ignored.
\<close>

theorem rootless_candidate_excluded:
  assumes "CHR ''/'' \<notin> set (webkitRelativePath f)"
  shows "relativePath f = []
       \<and> f \<notin> set (allowedFiles True ignores files)
       \<and> int (count_list files f) \<le> totalIgnored files (allowedFiles True ignores files)"
proof -
  have r: "relativePath f = []" using assms by (rule relativePath_no_slash)
  let ?P = "\<lambda>g. truthy (relativePath g) \<and> \<not> ignores (relativePath g)"
  have a: "allowedFiles True ignores files = filter ?P files"
    by (simp add: allowedFiles_def)
  have n: "\<not> ?P f" using r by (simp add: truthy_def)
  have "count_list files f = length (filter ((=) f) files)"
    by (simp add: count_list_eq_length_filter)
  also have "\<dots> \<le> length (filter (\<lambda>g. \<not> ?P g) files)"
    by (rule length_filter_mono) (use n in auto)
  finally have "int (count_list files f) \<le> totalIgnored files (filter ?P files)"
    by (simp add: totalIgnored_filter)
  with r n a show ?thesis by simp
qed

theorem rootless_candidate_excluded_witness:
  "CHR ''/'' \<notin> set (webkitRelativePath \<lparr>name = ''README'', webkitRelativePath = ''README''\<rparr>)
   \<and> relativePath \<lparr>name = ''README'', webkitRelativePath = ''README''\<rparr> = []
   \<and> \<lparr>name = ''README'', webkitRelativePath = ''README''\<rparr>
       \<notin> set (allowedFiles True (\<lambda>p. False)
                [\<lparr>name = ''README'', webkitRelativePath = ''README''\<rparr>,
                 \<lparr>name = ''main.rs'', webkitRelativePath = ''app/main.rs''\<rparr>])
   \<and> int (count_list
             [\<lparr>name = ''README'', webkitRelativePath = ''README''\<rparr>,
              \<lparr>name = ''main.rs'', webkitRelativePath = ''app/main.rs''\<rparr>]
             \<lparr>name = ''README'', webkitRelativePath = ''README''\<rparr>)
       \<le> totalIgnored
            [\<lparr>name = ''README'', webkitRelativePath = ''README''\<rparr>,
             \<lparr>name = ''main.rs'', webkitRelativePath = ''app/main.rs''\<rparr>]
            (allowedFiles True (\<lambda>p. False)
               [\<lparr>name = ''README'', webkitRelativePath = ''README''\<rparr>,
                \<lparr>name = ''main.rs'', webkitRelativePath = ''app/main.rs''\<rparr>])
   \<and> totalIgnored
        [\<lparr>name = ''README'', webkitRelativePath = ''README''\<rparr>,
         \<lparr>name = ''main.rs'', webkitRelativePath = ''app/main.rs''\<rparr>]
        (allowedFiles True (\<lambda>p. False)
           [\<lparr>name = ''README'', webkitRelativePath = ''README''\<rparr>,
            \<lparr>name = ''main.rs'', webkitRelativePath = ''app/main.rs''\<rparr>]) = 1"
proof -
  have h: "CHR ''/'' \<notin> set (webkitRelativePath \<lparr>name = ''README'', webkitRelativePath = ''README''\<rparr>)"
    by simp
  have t: "totalIgnored
        [\<lparr>name = ''README'', webkitRelativePath = ''README''\<rparr>,
         \<lparr>name = ''main.rs'', webkitRelativePath = ''app/main.rs''\<rparr>]
        (allowedFiles True (\<lambda>p. False)
           [\<lparr>name = ''README'', webkitRelativePath = ''README''\<rparr>,
            \<lparr>name = ''main.rs'', webkitRelativePath = ''app/main.rs''\<rparr>]) = 1"
    by (simp add: totalIgnored_def allowedFiles_def truthy_def relativePath_def slice1_def)
  show ?thesis
    using h t rootless_candidate_excluded [OF h, of "\<lambda>p. False"
        "[\<lparr>name = ''README'', webkitRelativePath = ''README''\<rparr>,
          \<lparr>name = ''main.rs'', webkitRelativePath = ''app/main.rs''\<rparr>]"]
    by simp
qed

subsection \<open>Extension tokens\<close>

text \<open>
  C6, as the code has it. The token of a name with a dot is a dot followed by the
  substring after the last dot, in the case the name has it; the token of a name
  without a dot is \<^verbatim>\<open>no-ext\<close>. The specification's token is the code's token with the
  part after the dot lower-cased.
\<close>

theorem ext_of_after_last_dot:
  "ext_of n = (if CHR ''.'' \<in> set n then CHR ''.'' # after_last CHR ''.'' n else ''no-ext'')
   \<and> extension_token_spec n =
       (if CHR ''.'' \<in> set n then CHR ''.'' # map to_lower (tl (ext_of n)) else ext_of n)"
proof -
  have "pop (split_str CHR ''.'' n) = Some (last (split_str CHR ''.'' n))"
    using split_str_not_Nil [of "CHR ''.''" n]
    by (cases "split_str CHR ''.'' n") (simp_all add: pop_def)
  then have "pop (split_str CHR ''.'' n) = Some (after_last CHR ''.'' n)"
    by (simp only: last_split_str)
  then have "ext_of n = (if CHR ''.'' \<in> set n then CHR ''.'' # after_last CHR ''.'' n else ''no-ext'')"
    by (simp add: ext_of_def includes_chr_def)
  then show ?thesis by (simp add: extension_token_spec_def)
qed

text \<open>
  C6, as the specification has it, lower-cases the token. For the name \<^verbatim>\<open>A.RS\<close> the code
  gives \<^verbatim>\<open>.RS\<close> and the specification's wording \<^verbatim>\<open>.rs\<close>.
\<close>

theorem ext_of_keeps_case: "ext_of ''A.RS'' \<noteq> extension_token_spec ''A.RS''"
  by code_simp

subsection \<open>The tally and the default selection\<close>

lemma keys_incr: "fst ` set (incr counts k) = insert k (fst ` set counts)"
  by (induction counts k rule: incr.induct) auto

lemma keys_foldl_incr:
  "fst ` set (foldl (\<lambda>counts f. incr counts (g f)) acc fs) = fst ` set acc \<union> g ` set fs"
  by (induction fs arbitrary: acc) (simp_all add: keys_incr)

lemma keys_availableExtensions:
  "fst ` set (availableExtensions allowed) = (\<lambda>f. ext_of (name f)) ` set allowed"
  by (simp add: availableExtensions_def keys_foldl_incr)

lemma newSelection_inter: "newSelection tally = set commonCodeExts \<inter> fst ` set tally"
  by (auto simp: newSelection_def commonCodeExts_def)

text \<open>
  C7. The default selection is exactly the intersection of the fixed list of common
  code extensions with the keys of the tally, which for the tally of the allowed files
  are the tokens of those files; the final list is exactly the allowed files whose token
  is selected, in their order, a subsequence of the allowed files. For the allowed files
  \<^verbatim>\<open>a.rs\<close>, \<^verbatim>\<open>b.py\<close>, \<^verbatim>\<open>c.bin\<close> and \<^verbatim>\<open>README\<close> the default selection is \<^verbatim>\<open>.rs\<close> and \<^verbatim>\<open>.py\<close>, and
  the final list with that selection is \<^verbatim>\<open>a.rs\<close>, \<^verbatim>\<open>b.py\<close>.
\<close>

theorem default_selection_and_import_set:
  "newSelection tally = set commonCodeExts \<inter> fst ` set tally
   \<and> newSelection (availableExtensions allowed) =
       set commonCodeExts \<inter> (\<lambda>f. ext_of (name f)) ` set allowed
   \<and> finalFilesToImport allowed selection =
       filter (\<lambda>f. ext_of (name f) \<in> selection) allowed
   \<and> subseq (finalFilesToImport allowed selection) allowed
   \<and> newSelection (availableExtensions
        [\<lparr>name = ''a.rs'', webkitRelativePath = ''p/a.rs''\<rparr>,
         \<lparr>name = ''b.py'', webkitRelativePath = ''p/b.py''\<rparr>,
         \<lparr>name = ''c.bin'', webkitRelativePath = ''p/c.bin''\<rparr>,
         \<lparr>name = ''README'', webkitRelativePath = ''p/README''\<rparr>]) = {''.rs'', ''.py''}
   \<and> finalFilesToImport
        [\<lparr>name = ''a.rs'', webkitRelativePath = ''p/a.rs''\<rparr>,
         \<lparr>name = ''b.py'', webkitRelativePath = ''p/b.py''\<rparr>,
         \<lparr>name = ''c.bin'', webkitRelativePath = ''p/c.bin''\<rparr>,
         \<lparr>name = ''README'', webkitRelativePath = ''p/README''\<rparr>] {''.rs'', ''.py''} =
        [\<lparr>name = ''a.rs'', webkitRelativePath = ''p/a.rs''\<rparr>,
         \<lparr>name = ''b.py'', webkitRelativePath = ''p/b.py''\<rparr>]"
proof -
  let ?fs = "[\<lparr>name = ''a.rs'', webkitRelativePath = ''p/a.rs''\<rparr>,
         \<lparr>name = ''b.py'', webkitRelativePath = ''p/b.py''\<rparr>,
         \<lparr>name = ''c.bin'', webkitRelativePath = ''p/c.bin''\<rparr>,
         \<lparr>name = ''README'', webkitRelativePath = ''p/README''\<rparr>]"
  have e: "ext_of ''a.rs'' = ''.rs''" "ext_of ''b.py'' = ''.py''"
    "ext_of ''c.bin'' = ''.bin''" "ext_of ''README'' = ''no-ext''"
    by (simp_all add: ext_of_def includes_chr_def pop_def)
  have t: "availableExtensions ?fs = [(''.rs'', 1), (''.py'', 1), (''.bin'', 1), (''no-ext'', 1)]"
    by (simp add: availableExtensions_def e)
  have s: "newSelection (availableExtensions ?fs) = {''.rs'', ''.py''}"
    unfolding t by (simp add: newSelection_def commonCodeExts_def) 
  have f: "finalFilesToImport ?fs {''.rs'', ''.py''} =
        [\<lparr>name = ''a.rs'', webkitRelativePath = ''p/a.rs''\<rparr>,
         \<lparr>name = ''b.py'', webkitRelativePath = ''p/b.py''\<rparr>]"
    by (simp add: finalFilesToImport_def e)
  have g: "finalFilesToImport allowed selection =
       filter (\<lambda>f. ext_of (name f) \<in> selection) allowed"
    by (simp add: finalFilesToImport_def)
  have u: "subseq (finalFilesToImport allowed selection) allowed"
    unfolding g by simp
  have k: "newSelection (availableExtensions allowed) =
       set commonCodeExts \<inter> (\<lambda>f. ext_of (name f)) ` set allowed"
    by (simp only: newSelection_inter keys_availableExtensions)
  show ?thesis
    using newSelection_inter [of tally] k g u s f by blast
qed

subsection \<open>The order of the chips\<close>

lemma mset_insert_sorted: "mset (insert_sorted cmp x ys) = add_mset x (mset ys)"
  by (induction ys) auto

lemma mset_stable_sort: "mset (stable_sort cmp xs) = mset xs"
  by (induction xs) (auto simp: stable_sort_def mset_insert_sorted)

lemma set_insert_sorted: "set (insert_sorted cmp x ys) = insert x (set ys)"
  by (induction ys) auto

lemma sorted_insert_chip:
  "sorted_wrt (\<lambda>a b. snd b \<le> snd a) ys \<Longrightarrow>
   sorted_wrt (\<lambda>a b. snd b \<le> snd a) (insert_sorted chipCompare x ys)"
  by (induction ys) (auto simp: set_insert_sorted chipCompare_def)

lemma sorted_chips:
  "sorted_wrt (\<lambda>a b. snd b \<le> snd a) (foldr (insert_sorted chipCompare) t [])"
  by (induction t) (simp_all add: sorted_insert_chip)

lemma filter_insert_chip:
  "sorted_wrt (\<lambda>a b. snd b \<le> snd a) ys \<Longrightarrow>
   filter (\<lambda>e. snd e = k) (insert_sorted chipCompare x ys) =
     (if snd x = k then x # filter (\<lambda>e. snd e = k) ys else filter (\<lambda>e. snd e = k) ys)"
  by (induction ys) (auto simp: chipCompare_def)

lemma stable_chips:
  "filter (\<lambda>e. snd e = k) (foldr (insert_sorted chipCompare) t []) = filter (\<lambda>e. snd e = k) t"
  by (induction t) (simp_all add: filter_insert_chip sorted_chips)

text \<open>
  C8, as the code has it. The displayed entries are the entries of the tally, sorted by
  descending count; entries of equal count keep the order they have in the tally, the
  order in which their tokens first occur among the allowed files. The displayed order
  is a function of the tally.
\<close>

theorem extensionChips_descending_stable:
  "sorted_wrt (\<lambda>a b. snd b \<le> snd a) (extensionChips tally)
   \<and> mset (extensionChips tally) = mset tally
   \<and> filter (\<lambda>e. snd e = k) (extensionChips tally) = filter (\<lambda>e. snd e = k) tally"
  by (simp add: extensionChips_def mset_stable_sort)
     (simp add: stable_sort_def sorted_chips stable_chips)

text \<open>
  C8, as the specification has it, breaks ties by ascending token. For the allowed files
  \<^verbatim>\<open>b.ts\<close> and \<^verbatim>\<open>a.rs\<close>, each token counted once, the code displays \<^verbatim>\<open>.ts\<close> before \<^verbatim>\<open>.rs\<close>.
\<close>

theorem extensionChips_ties_not_by_token:
  "extensionChips (availableExtensions
      [\<lparr>name = ''b.ts'', webkitRelativePath = ''p/b.ts''\<rparr>,
       \<lparr>name = ''a.rs'', webkitRelativePath = ''p/a.rs''\<rparr>]) = [(''.ts'', 1), (''.rs'', 1)]
   \<and> \<not> sorted_wrt display_order_spec
         (extensionChips (availableExtensions
            [\<lparr>name = ''b.ts'', webkitRelativePath = ''p/b.ts''\<rparr>,
             \<lparr>name = ''a.rs'', webkitRelativePath = ''p/a.rs''\<rparr>]))"
  by code_simp

subsection \<open>The ignore filter\<close>

lemma isIgnored_snoc:
  "isIgnored (m @ [r]) path =
     (if rule_matches r path then \<not> negated (fst r) else isIgnored m path)"
  by (simp add: isIgnored_def)

lemma isIgnored_last_match:
  "isIgnored m path =
     (let hits = filter (\<lambda>r. rule_matches r path) m
      in hits \<noteq> [] \<and> \<not> negated (fst (last hits)))"
  by (induction m rule: rev_induct) (simp_all add: isIgnored_snoc Let_def, simp add: isIgnored_def)

lemma parse_line_sourceOrder:
  "parse_line n line = Inr (Some r) \<Longrightarrow> sourceOrder (fst r) = n"
  by (auto simp: parse_line_def Let_def split: list.splits if_splits prod.splits sum.splits)

lemma build_lines_sourceOrder:
  "build_lines n ls = Inr k \<Longrightarrow>
   sorted_wrt (<) (map (\<lambda>r. sourceOrder (fst r)) k) \<and> (\<forall>r \<in> set k. n \<le> sourceOrder (fst r))"
proof (induction ls arbitrary: n k)
  case Nil
  then show ?case by simp
next
  case (Cons line rest)
  from Cons.prems obtain parsed rules where
    p: "parse_line n line = Inr parsed" and
    b: "build_lines (Suc n) rest = Inr rules" and
    k: "k = (case parsed of None \<Rightarrow> [] | Some r \<Rightarrow> [r]) @ rules"
    by (auto split: sum.splits)
  from Cons.IH [OF b] have ih:
    "sorted_wrt (<) (map (\<lambda>r. sourceOrder (fst r)) rules)"
    "\<forall>r \<in> set rules. Suc n \<le> sourceOrder (fst r)"
    by simp_all
  show ?case
  proof (cases parsed)
    case None
    with k ih show ?thesis by auto
  next
    case (Some r)
    with p have "sourceOrder (fst r) = n" by (simp add: parse_line_sourceOrder)
    with Some k ih show ?thesis by auto
  qed
qed

text \<open>
  C1. For every matcher and path, the decision of \<open>isIgnored\<close> is that of the last rule,
  in source order, that matches the path: ignored when there is such a rule and it is
  not negated. A matching rule added at the end decides whatever came before, so a
  later negated rule includes again what an earlier rule excluded. The rules that
  \<open>build\<close> returns are in ascending source order. For the patterns \<^verbatim>\<open>*.log\<close> and
  \<^verbatim>\<open>!keep.log\<close>, \<^verbatim>\<open>keep.log\<close> is not ignored and \<^verbatim>\<open>debug.log\<close> is.
\<close>

theorem last_matching_rule_decides:
  "isIgnored m path =
     (let hits = filter (\<lambda>r. rule_matches r path) m
      in hits \<noteq> [] \<and> \<not> negated (fst (last hits)))
   \<and> isIgnored (m @ [r]) path =
       (if rule_matches r path then \<not> negated (fst r) else isIgnored m path)
   \<and> (case build patternSources of
         Inl e \<Rightarrow> True
       | Inr k \<Rightarrow> sorted_wrt (<) (map (\<lambda>r. sourceOrder (fst r)) k))
   \<and> (case build [''*.log'', ''!keep.log''] of
         Inl e \<Rightarrow> False
       | Inr k \<Rightarrow> \<not> isIgnored k ''keep.log'' \<and> isIgnored k ''debug.log'')"
proof -
  have o: "(case build patternSources of
         Inl e \<Rightarrow> True
       | Inr k \<Rightarrow> sorted_wrt (<) (map (\<lambda>r. sourceOrder (fst r)) k))"
    by (simp add: build_def build_lines_sourceOrder split: sum.splits)
  have c: "(case build [''*.log'', ''!keep.log''] of
         Inl e \<Rightarrow> False
       | Inr k \<Rightarrow> \<not> isIgnored k ''keep.log'' \<and> isIgnored k ''debug.log'')"
    by code_simp
  show ?thesis
    using isIgnored_last_match [of m path] isIgnored_snoc [of m r path] o c by blast
qed

text \<open>
  C2. The pattern \<^verbatim>\<open>build/\<close> ignores \<^verbatim>\<open>build/output.txt\<close> and \<^verbatim>\<open>src/build/output.txt\<close>; the
  pattern \<^verbatim>\<open>/build/\<close>, anchored to the root, ignores \<^verbatim>\<open>build/output.txt\<close> and does not
  ignore \<^verbatim>\<open>src/build/output.txt\<close>.
\<close>

theorem directory_and_root_anchor:
  "(case build [''build/''] of
      Inl e \<Rightarrow> False
    | Inr k \<Rightarrow> isIgnored k ''build/output.txt'' \<and> isIgnored k ''src/build/output.txt'')
   \<and> (case build [''/build/''] of
         Inl e \<Rightarrow> False
       | Inr k \<Rightarrow> isIgnored k ''build/output.txt'' \<and> \<not> isIgnored k ''src/build/output.txt'')"
  by code_simp

text \<open>
  C4. Without the content of a \<^verbatim>\<open>.gitignore\<close>, or with an empty one, the component's filter
  is built from the default patterns alone. It ignores \<^verbatim>\<open>node_modules/pkg/index.js\<close> and
  \<^verbatim>\<open>.git/config\<close> and does not ignore \<^verbatim>\<open>src/index.js\<close>, and of the two candidates
  \<^verbatim>\<open>app/node_modules/pkg/index.js\<close> and \<^verbatim>\<open>app/src/index.js\<close> the second alone is allowed.
  The matcher without rules ignores neither \<^verbatim>\<open>node_modules/pkg/index.js\<close> nor
  \<^verbatim>\<open>.git/config\<close>: these paths are ignored by the default patterns, not by the matching.
\<close>

theorem built_in_defaults:
  "ignoreFilter None = build defaultPatterns
   \<and> ignoreFilter (Some []) = build defaultPatterns
   \<and> (case ignoreFilter None of
         Inl e \<Rightarrow> False
       | Inr k \<Rightarrow>
           isIgnored k ''node_modules/pkg/index.js''
           \<and> \<not> isIgnored k ''src/index.js''
           \<and> isIgnored k ''.git/config''
           \<and> allowedFiles True (isIgnored k)
               [\<lparr>name = ''index.js'', webkitRelativePath = ''app/node_modules/pkg/index.js''\<rparr>,
                \<lparr>name = ''index.js'', webkitRelativePath = ''app/src/index.js''\<rparr>] =
               [\<lparr>name = ''index.js'', webkitRelativePath = ''app/src/index.js''\<rparr>])
   \<and> \<not> isIgnored [] ''node_modules/pkg/index.js''
   \<and> \<not> isIgnored [] ''.git/config''"
proof -
  have a: "ignoreFilter None = build defaultPatterns \<and> ignoreFilter (Some []) = build defaultPatterns"
    by (simp add: ignoreFilter_def truthy_def)
  have b: "(case ignoreFilter None of
         Inl e \<Rightarrow> False
       | Inr k \<Rightarrow>
           isIgnored k ''node_modules/pkg/index.js''
           \<and> \<not> isIgnored k ''src/index.js''
           \<and> isIgnored k ''.git/config''
           \<and> allowedFiles True (isIgnored k)
               [\<lparr>name = ''index.js'', webkitRelativePath = ''app/node_modules/pkg/index.js''\<rparr>,
                \<lparr>name = ''index.js'', webkitRelativePath = ''app/src/index.js''\<rparr>] =
               [\<lparr>name = ''index.js'', webkitRelativePath = ''app/src/index.js''\<rparr>])"
    by code_simp
  show ?thesis using a b by (simp add: isIgnored_def)
qed

text \<open>
  C3, as the code has it. The matcher of the empty pattern source has no rules and
  ignores no path, and no matcher ignores a path that none of its rules matches.
  Filtering with the empty matcher keeps exactly the candidates whose relative path is
  not empty, in their order.
\<close>

theorem no_matching_rule_not_ignored:
  "\<not> isIgnored [] p
   \<and> build [] = Inr []
   \<and> (list_all (\<lambda>r. \<not> rule_matches r p) m \<longrightarrow> \<not> isIgnored m p)
   \<and> allowedFiles True (isIgnored []) files = filter (\<lambda>f. relativePath f \<noteq> []) files"
proof -
  have "list_all (\<lambda>r. \<not> rule_matches r p) m \<longrightarrow> \<not> isIgnored m p"
    by (simp add: isIgnored_last_match list_all_iff Let_def)
  then show ?thesis
    by (simp add: isIgnored_def build_def allowedFiles_def truthy_def)
qed

theorem no_matching_rule_not_ignored_witness:
  "list_all (\<lambda>r. \<not> rule_matches r ''notes.txt'')
     [(\<lparr>glob = ''*.log'', anchoredToRoot = False, directoryOnly = False, negated = False,
        sourceOrder = 0\<rparr>,
       [Star, Lit CHR ''.'', Lit CHR ''l'', Lit CHR ''o'', Lit CHR ''g''])]
   \<and> \<not> isIgnored
        [(\<lparr>glob = ''*.log'', anchoredToRoot = False, directoryOnly = False, negated = False,
           sourceOrder = 0\<rparr>,
          [Star, Lit CHR ''.'', Lit CHR ''l'', Lit CHR ''o'', Lit CHR ''g''])] ''notes.txt''
   \<and> build [''*.log''] =
       Inr [(\<lparr>glob = ''*.log'', anchoredToRoot = False, directoryOnly = False, negated = False,
              sourceOrder = 0\<rparr>,
             [Star, Lit CHR ''.'', Lit CHR ''l'', Lit CHR ''o'', Lit CHR ''g''])]"
proof -
  let ?k = "[(\<lparr>glob = ''*.log'', anchoredToRoot = False, directoryOnly = False, negated = False,
        sourceOrder = 0\<rparr>,
       [Star, Lit CHR ''.'', Lit CHR ''l'', Lit CHR ''o'', Lit CHR ''g''])]"
  have h: "list_all (\<lambda>r. \<not> rule_matches r ''notes.txt'') ?k"
    by code_simp
  have b: "build [''*.log''] = Inr ?k"
    by code_simp
  from no_matching_rule_not_ignored [of "''notes.txt''" ?k] h
  have "\<not> isIgnored ?k ''notes.txt''" by blast
  with h b show ?thesis by blast
qed

text \<open>
  C3, as the specification has it, lets the empty pattern list leave every candidate
  allowed. The candidate whose platform path is \<^verbatim>\<open>README\<close>, without a separator, is dropped.
\<close>

theorem empty_pattern_list_drops_rootless:
  "allowedFiles True (isIgnored []) [\<lparr>name = ''README'', webkitRelativePath = ''README''\<rparr>]
     \<noteq> [\<lparr>name = ''README'', webkitRelativePath = ''README''\<rparr>]"
  by (simp add: allowedFiles_def truthy_def relativePath_def slice1_def)

end
